theory Spec2Isabelle
  imports Main
begin

section \<open>A caching gateway in front of one upstream JSON API (main.go)\<close>

text \<open>
  The Go program keeps one process-wide map from upstream URL to a cached response body
  and its expiry instant. \<open>serveCached\<close> answers from that map while the entry is fresh
  and otherwise fetches the URL, stores the body and answers with it. The embedding
  threads the map and a log of the side effects (lock operations, network calls, writes
  to the client) through every function; what the outside world answers (the clock and
  the upstream) is an explicit argument.
\<close>

subsection \<open>Constants\<close>

type_synonym bytes = string
  \<comment> \<open>\<open>[]byte\<close>: a \<open>char\<close> of HOL is one byte\<close>

type_synonym instant = int
  \<comment> \<open>a \<open>time.Time\<close>, as nanoseconds on the timeline of the process clock\<close>

type_synonym duration = int
  \<comment> \<open>a \<open>time.Duration\<close>, in nanoseconds\<close>

definition Second :: duration where
  "Second = 1000000000"

definition Minute :: duration where
  "Minute = 60 * Second"

definition baseUpstream :: string where
  "baseUpstream = ''https://calman02.barrierefrei.berlin/calendar/api/v1''"

definition cacheTTL :: duration where
  "cacheTTL = 5 * Minute"

definition MethodGet :: string where
  "MethodGet = ''GET''"

definition StatusOK :: int where
  "StatusOK = 200"

definition StatusBadRequest :: int where
  "StatusBadRequest = 400"

definition StatusMethodNotAllowed :: int where
  "StatusMethodNotAllowed = 405"

definition StatusBadGateway :: int where
  "StatusBadGateway = 502"

subsection \<open>The cache and the log of effects\<close>

record cacheEntry =
  data :: bytes
  until :: instant

text \<open>
  Everything \<open>serveCached\<close> does besides computing is recorded, in program order:
  the operations on \<open>cacheMutex\<close>, the call \<open>httpClient.Get\<close>, reading and closing the
  response body, and writing to the client connection.
\<close>

datatype event =
    RLock
  | RUnlock
  | Lock
  | Unlock
  | ClientGet string
  | BodyReadAll
  | BodyClose
  | ResponseWrite

record state =
  cache :: "string \<rightharpoonup> cacheEntry"
  events :: "event list"

definition emit :: "event \<Rightarrow> state \<Rightarrow> state" where
  "emit e s = s\<lparr>events := events s @ [e]\<rparr>"

text \<open>
  \<open>entry, ok := cache[upstream]\<close>: a missing key gives the zero value of the entry
  type and \<open>ok = false\<close>. The zero \<open>time.Time\<close> is never compared, since \<open>&&\<close> does not
  evaluate its right operand when \<open>ok\<close> is false.
\<close>

definition zeroEntry :: cacheEntry where
  "zeroEntry = \<lparr>data = [], until = 0\<rparr>"

definition index :: "(string \<rightharpoonup> cacheEntry) \<Rightarrow> string \<Rightarrow> cacheEntry \<times> bool" where
  "index m k = (case m k of None \<Rightarrow> (zeroEntry, False) | Some e \<Rightarrow> (e, True))"

subsection \<open>The response writer\<close>

text \<open>
  An \<open>http.ResponseWriter\<close>: the header map, the status line once it has been written,
  and the bytes written so far. The first \<open>Write\<close> sends status 200 when no status has
  been written; a second \<open>WriteHeader\<close> is ignored.
\<close>

record responseWriter =
  header :: "string \<rightharpoonup> string list"
  status :: "int option"
  written :: bytes

definition Header_Set :: "responseWriter \<Rightarrow> string \<Rightarrow> string \<Rightarrow> responseWriter" where
  "Header_Set w k v = w\<lparr>header := (header w)(k \<mapsto> [v])\<rparr>"

definition WriteHeader :: "responseWriter \<Rightarrow> int \<Rightarrow> responseWriter" where
  "WriteHeader w code = (case status w of None \<Rightarrow> w\<lparr>status := Some code\<rparr> | Some _ \<Rightarrow> w)"

definition Write :: "responseWriter \<Rightarrow> bytes \<Rightarrow> responseWriter" where
  "Write w b =
     (let w = WriteHeader w StatusOK
      in w\<lparr>written := written w @ b\<rparr>)"

text \<open>
  \<open>http.Error\<close> of the standard library: a plain-text reply with the given status, the
  message followed by a newline.
\<close>

definition http_Error :: "responseWriter \<Rightarrow> string \<Rightarrow> int \<Rightarrow> responseWriter" where
  "http_Error w msg code =
     (let w = Header_Set w ''Content-Type'' ''text/plain; charset=utf-8'';
          w = Header_Set w ''X-Content-Type-Options'' ''nosniff'';
          w = WriteHeader w code
      in w\<lparr>written := written w @ msg @ [CHR 0x0A]\<rparr>)"

text \<open>
  Both send bytes to the client, so every use of them is logged as a \<open>ResponseWrite\<close>.
\<close>

definition reply :: "state \<Rightarrow> responseWriter \<Rightarrow> state \<times> responseWriter" where
  "reply s w = (emit ResponseWrite s, w)"

subsection \<open>The outside world\<close>

text \<open>
  What \<open>io.ReadAll(resp.Body)\<close> returns: the whole body, or an error together with the
  bytes read before it. What \<open>httpClient.Get\<close> returns: an error, or a response with its
  status code and body.
\<close>

datatype readResult = ReadOK bytes | ReadErr bytes

record response =
  StatusCode :: int
  Body :: readResult

datatype getResult = GetErr | GetResp response

text \<open>
  One call of \<open>serveCached\<close> reads the clock at most twice (for the freshness test and
  for the expiry of a new entry) and calls the upstream at most once.
\<close>

record env =
  now_lookup :: instant
  client_Get :: "string \<Rightarrow> getResult"
  now_store :: instant

subsection \<open>serveCached\<close>

text \<open>Lines 116 to 121: the new entry replaces whatever the key had, under the write lock.\<close>

definition cacheStore :: "state \<Rightarrow> string \<Rightarrow> bytes \<Rightarrow> instant \<Rightarrow> state" where
  "cacheStore s upstream body now =
     (let s = emit Lock s;
          s = s\<lparr>cache := (cache s)(upstream \<mapsto> \<lparr>data = body, until = now + cacheTTL\<rparr>)\<rparr>
      in emit Unlock s)"

text \<open>\<open>defer resp.Body.Close()\<close> runs on every return after line 103.\<close>

definition deferred_Close :: "state \<times> responseWriter \<Rightarrow> state \<times> responseWriter" where
  "deferred_Close r = (emit BodyClose (fst r), snd r)"

definition serveCached ::
  "env \<Rightarrow> state \<Rightarrow> responseWriter \<Rightarrow> string \<Rightarrow> state \<times> responseWriter" where
  "serveCached env s w upstream =
     (let s = emit RLock s;
          (entry, ok) = index (cache s) upstream
      in if ok \<and> now_lookup env < until entry then
           (let w = Header_Set w ''Content-Type'' ''application/json'';
                w = Header_Set w ''X-Cache'' ''HIT'';
                (s, w) = reply s (Write w (data entry))
            in (emit RUnlock s, w))
         else
           (let s = emit RUnlock s;
                s = emit (ClientGet upstream) s
            in case client_Get env upstream of
                 GetErr \<Rightarrow> reply s (http_Error w ''Upstream unavailable'' StatusBadGateway)
               | GetResp resp \<Rightarrow> deferred_Close
                   (if StatusCode resp \<noteq> StatusOK then
                      reply s (http_Error w ''Upstream error'' StatusBadGateway)
                    else
                      (let s = emit BodyReadAll s
                       in case Body resp of
                            ReadErr _ \<Rightarrow>
                              reply s (http_Error w ''Failed to read upstream response''
                                StatusBadGateway)
                          | ReadOK body \<Rightarrow>
                              (let s = cacheStore s upstream body (now_store env);
                                   w = Header_Set w ''Content-Type'' ''application/json'';
                                   w = Header_Set w ''X-Cache'' ''MISS''
                               in reply s (Write w body))))))"

subsection \<open>The validation of event identifiers\<close>

text \<open>
  \<open>eventIDRegex\<close> is the compiled pattern \<open>^[0-9]+$\<close>. The part of Go's regular
  expressions it uses: the two anchors (without the multi-line flag they hold at the
  very beginning and the very end of the text only), a character class given by a range
  of code points, one-or-more repetition and concatenation. A byte of a string matches
  the class \<open>[0-9]\<close> exactly when it is one of the ten ASCII digits: the bytes of a
  longer UTF-8 sequence, and invalid bytes, decode to code points outside the range.

  A position in the text is the rest of the input together with a flag telling whether
  it is the beginning of the text. \<open>ends r p\<close> lists the positions where a match of \<open>r\<close>
  that starts at \<open>p\<close> can end. A repetition goes on only from the positions that lie
  further in the text: a round that consumed nothing leads to no position that the round
  before did not reach already.
\<close>

datatype regexp =
    BeginText
  | EndText
  | CharClass nat nat
  | Plus regexp
  | Concat regexp regexp

type_synonym position = "bool \<times> string"

function ends :: "regexp \<Rightarrow> position \<Rightarrow> position list" where
  "ends BeginText p = (if fst p then [p] else [])"
| "ends EndText p = (if snd p = [] then [p] else [])"
| "ends (CharClass lo hi) p =
     (case snd p of
        [] \<Rightarrow> []
      | c # cs \<Rightarrow> if lo \<le> of_char c \<and> of_char c \<le> hi then [(False, cs)] else [])"
| "ends (Concat r1 r2) p = concat (map (ends r2) (ends r1 p))"
| "ends (Plus r) p =
     (let once = ends r p
      in once @
         concat (map (ends (Plus r)) (filter (\<lambda>q. length (snd q) < length (snd p)) once)))"
  by pat_completeness auto
termination
  by (relation "measures [\<lambda>(r, p). size r, \<lambda>(r, p). length (snd p)]") auto

text \<open>\<open>MatchString\<close> reports whether some substring of the text matches.\<close>

fun search :: "regexp \<Rightarrow> bool \<Rightarrow> string \<Rightarrow> bool" where
  "search re b [] = (ends re (b, []) \<noteq> [])"
| "search re b (c # cs) = (ends re (b, c # cs) \<noteq> [] \<or> search re False cs)"

definition MatchString :: "regexp \<Rightarrow> string \<Rightarrow> bool" where
  "MatchString re t = search re True t"

definition eventIDRegex :: regexp where
  "eventIDRegex = Concat BeginText (Concat (Plus (CharClass 0x30 0x39)) EndText)"

subsection \<open>The handlers\<close>

record request =
  Method :: string
  URL_Path :: string

definition proxyStatic ::
  "string \<Rightarrow> env \<Rightarrow> state \<Rightarrow> responseWriter \<Rightarrow> request \<Rightarrow> state \<times> responseWriter" where
  "proxyStatic path =
     (let upstream = baseUpstream @ path
      in (\<lambda>env s w r.
            if Method r \<noteq> MethodGet then
              reply s (http_Error w ''Method not allowed'' StatusMethodNotAllowed)
            else serveCached env s w upstream))"

text \<open>
  \<open>r.URL.Path[len("/api/calendar/event/"):]\<close> panics when the path is shorter than the
  prefix; the result \<open>None\<close> is that panic. The mux routes only paths that start with the
  prefix to this handler.
\<close>

definition eventByIDHandler ::
  "env \<Rightarrow> state \<Rightarrow> responseWriter \<Rightarrow> request \<Rightarrow> (state \<times> responseWriter) option" where
  "eventByIDHandler env s w r =
     (if Method r \<noteq> MethodGet then
        Some (reply s (http_Error w ''Method not allowed'' StatusMethodNotAllowed))
      else if length (URL_Path r) < length ''/api/calendar/event/'' then None
      else
        (let ident = drop (length ''/api/calendar/event/'') (URL_Path r)
         in if \<not> MatchString eventIDRegex ident then
              Some (reply s (http_Error w ''Invalid event id'' StatusBadRequest))
            else
              (let upstream = baseUpstream @ ''/event/'' @ ident
               in Some (serveCached env s w upstream))))"

subsection \<open>Reading the log\<close>

text \<open>The URLs requested from the upstream, in order.\<close>

fun transport_calls :: "event list \<Rightarrow> string list" where
  "transport_calls [] = []"
| "transport_calls (ClientGet u # es) = u # transport_calls es"
| "transport_calls (e # es) = transport_calls es"

text \<open>
  Input and output are the network call, reading and closing the upstream body and
  writing to the client. \<open>io_while_locked h es\<close> tells whether some of it happens in
  \<open>es\<close> at a moment when the caller holds \<open>cacheMutex\<close>, \<open>h\<close> being the number of
  acquisitions not yet released at the start.
\<close>

fun is_io :: "event \<Rightarrow> bool" where
  "is_io (ClientGet u) = True"
| "is_io BodyReadAll = True"
| "is_io BodyClose = True"
| "is_io ResponseWrite = True"
| "is_io e = False"

fun io_while_locked :: "nat \<Rightarrow> event list \<Rightarrow> bool" where
  "io_while_locked h [] = False"
| "io_while_locked h (RLock # es) = io_while_locked (Suc h) es"
| "io_while_locked h (Lock # es) = io_while_locked (Suc h) es"
| "io_while_locked h (RUnlock # es) = io_while_locked (h - 1) es"
| "io_while_locked h (Unlock # es) = io_while_locked (h - 1) es"
| "io_while_locked h (e # es) = ((0 < h \<and> is_io e) \<or> io_while_locked h es)"


subsection \<open>Serving several requests one after another\<close>

text \<open>
  Requests for one URL handled in sequence, each with its own answers from the outside
  world and its own response writer; the state after the last one.
\<close>

fun serveRepeatedly :: "(env \<times> responseWriter) list \<Rightarrow> string \<Rightarrow> state \<Rightarrow> state" where
  "serveRepeatedly [] upstream s = s"
| "serveRepeatedly (x # xs) upstream s =
     serveRepeatedly xs upstream (fst (serveCached (fst x) s (snd x) upstream))"

subsection \<open>Concrete inputs\<close>

text \<open>The cache at startup (\<open>map[string]cacheEntry{}\<close>) with an empty log, and a new writer.\<close>

definition initialState :: state where
  "initialState = \<lparr>cache = Map.empty, events = []\<rparr>"

definition freshWriter :: responseWriter where
  "freshWriter = \<lparr>header = Map.empty, status = None, written = []\<rparr>"

definition eventsURL :: string where
  "eventsURL = baseUpstream @ ''/events?show_past=true''"

definition cachedState :: state where
  "cachedState = \<lparr>cache = [eventsURL \<mapsto> \<lparr>data = ''{}'', until = 100\<rparr>], events = []\<rparr>"

text \<open>An upstream that gives the same answer for every URL.\<close>

definition always :: "getResult \<Rightarrow> string \<Rightarrow> getResult" where
  "always r u = r"

definition world :: "instant \<Rightarrow> getResult \<Rightarrow> instant \<Rightarrow> env" where
  "world t r t' = \<lparr>now_lookup = t, client_Get = always r, now_store = t'\<rparr>"

definition answer :: "int \<Rightarrow> readResult \<Rightarrow> getResult" where
  "answer code b = GetResp \<lparr>StatusCode = code, Body = b\<rparr>"

section \<open>Properties\<close>

subsection \<open>What one call of serveCached does, path by path\<close>

lemma transport_calls_append:
  "transport_calls (xs @ ys) = transport_calls xs @ transport_calls ys"
  by (induction xs rule: transport_calls.induct) simp_all

text \<open>The test of line 89, in terms of the map.\<close>

lemma fresh_iff:
  "(snd (index m k) \<and> t < until (fst (index m k))) \<longleftrightarrow> (\<exists>e. m k = Some e \<and> t < until e)"
  by (simp add: index_def split: option.splits)

lemma serveCached_hit:
  assumes "cache s upstream = Some e" and "now_lookup env < until e"
  shows "serveCached env s w upstream =
           (s\<lparr>events := events s @ [RLock, ResponseWrite, RUnlock]\<rparr>,
            Write (Header_Set (Header_Set w ''Content-Type'' ''application/json'')
                     ''X-Cache'' ''HIT'') (data e))"
  using assms by (simp add: serveCached_def index_def emit_def reply_def)

lemma serveCached_GetErr:
  assumes "\<not> (\<exists>e. cache s upstream = Some e \<and> now_lookup env < until e)"
    and "client_Get env upstream = GetErr"
  shows "serveCached env s w upstream =
           (s\<lparr>events := events s @ [RLock, RUnlock, ClientGet upstream, ResponseWrite]\<rparr>,
            http_Error w ''Upstream unavailable'' StatusBadGateway)"
  using assms
  by (auto simp add: serveCached_def index_def emit_def reply_def split: option.splits)

lemma serveCached_not_OK:
  assumes "\<not> (\<exists>e. cache s upstream = Some e \<and> now_lookup env < until e)"
    and "client_Get env upstream = GetResp resp" and "StatusCode resp \<noteq> StatusOK"
  shows "serveCached env s w upstream =
           (s\<lparr>events := events s @
                [RLock, RUnlock, ClientGet upstream, ResponseWrite, BodyClose]\<rparr>,
            http_Error w ''Upstream error'' StatusBadGateway)"
  using assms
  by (auto simp add: serveCached_def index_def emit_def reply_def deferred_Close_def
      split: option.splits)

lemma serveCached_ReadErr:
  assumes "\<not> (\<exists>e. cache s upstream = Some e \<and> now_lookup env < until e)"
    and "client_Get env upstream = GetResp resp" and "StatusCode resp = StatusOK"
    and "Body resp = ReadErr part"
  shows "serveCached env s w upstream =
           (s\<lparr>events := events s @
                [RLock, RUnlock, ClientGet upstream, BodyReadAll, ResponseWrite, BodyClose]\<rparr>,
            http_Error w ''Failed to read upstream response'' StatusBadGateway)"
  using assms
  by (auto simp add: serveCached_def index_def emit_def reply_def deferred_Close_def
      split: option.splits)

lemma serveCached_ReadOK:
  assumes "\<not> (\<exists>e. cache s upstream = Some e \<and> now_lookup env < until e)"
    and "client_Get env upstream = GetResp resp" and "StatusCode resp = StatusOK"
    and "Body resp = ReadOK body"
  shows "serveCached env s w upstream =
           (s\<lparr>cache := (cache s)(upstream \<mapsto> \<lparr>data = body, until = now_store env + cacheTTL\<rparr>),
              events := events s @
                [RLock, RUnlock, ClientGet upstream, BodyReadAll, Lock, Unlock, ResponseWrite,
                 BodyClose]\<rparr>,
            Write (Header_Set (Header_Set w ''Content-Type'' ''application/json'')
                     ''X-Cache'' ''MISS'') body)"
  using assms
  by (auto simp add: serveCached_def index_def emit_def reply_def deferred_Close_def
      cacheStore_def split: option.splits)

lemma Write_fields:
  "written (Write w b) = written w @ b"
  "header (Write w b) = header w"
  "status (Write w b) = Some (case status w of None \<Rightarrow> StatusOK | Some c \<Rightarrow> c)"
  by (simp_all add: Write_def WriteHeader_def Let_def split: option.splits)

lemma http_Error_fields:
  "written (http_Error w msg code) = written w @ msg @ [CHR 0x0A]"
  "header (http_Error w msg code) =
     (header w)(''Content-Type'' \<mapsto> [''text/plain; charset=utf-8''],
                ''X-Content-Type-Options'' \<mapsto> [''nosniff''])"
  "status (http_Error w msg code) = Some (case status w of None \<Rightarrow> code | Some c \<Rightarrow> c)"
  by (simp_all add: http_Error_def WriteHeader_def Header_Set_def Let_def split: option.splits)

lemma Header_Set_fields:
  "written (Header_Set w k v) = written w"
  "header (Header_Set w k v) = (header w)(k \<mapsto> [v])"
  "status (Header_Set w k v) = status w"
  by (simp_all add: Header_Set_def)

lemma http_Error_msg_inject:
  "http_Error w m c = http_Error w m' c' \<Longrightarrow> m = m'"
proof -
  assume "http_Error w m c = http_Error w m' c'"
  then have "written (http_Error w m c) = written (http_Error w m' c')" by simp
  then show "m = m'" by (simp add: http_Error_fields)
qed

lemma http_Error_not_json:
  "http_Error w m c \<noteq>
     Write (Header_Set (Header_Set w ''Content-Type'' ''application/json'') ''X-Cache'' v) b"
proof
  assume "http_Error w m c =
     Write (Header_Set (Header_Set w ''Content-Type'' ''application/json'') ''X-Cache'' v) b"
  then have "header (http_Error w m c) ''Content-Type'' =
     header (Write (Header_Set (Header_Set w ''Content-Type'' ''application/json'') ''X-Cache'' v) b)
       ''Content-Type''" by simp
  then show False
    by (simp add: http_Error_fields Write_fields Header_Set_fields split: if_splits)
qed

text \<open>Which reply each outcome of the fetch gives.\<close>

lemma serveCached_error_replies:
  assumes miss: "\<not> (\<exists>e. cache s upstream = Some e \<and> now_lookup env < until e)"
  shows
    "(snd (serveCached env s w upstream) = http_Error w ''Upstream unavailable'' StatusBadGateway
        \<longleftrightarrow> client_Get env upstream = GetErr) \<and>
     (snd (serveCached env s w upstream) = http_Error w ''Upstream error'' StatusBadGateway
        \<longleftrightarrow> (\<exists>resp. client_Get env upstream = GetResp resp \<and> StatusCode resp \<noteq> StatusOK)) \<and>
     (snd (serveCached env s w upstream) =
        http_Error w ''Failed to read upstream response'' StatusBadGateway
        \<longleftrightarrow> (\<exists>resp part. client_Get env upstream = GetResp resp \<and>
               StatusCode resp = StatusOK \<and> Body resp = ReadErr part)) \<and>
     (snd (serveCached env s w upstream) = http_Error w ''Upstream unavailable'' StatusBadGateway \<or>
      snd (serveCached env s w upstream) = http_Error w ''Upstream error'' StatusBadGateway \<or>
      snd (serveCached env s w upstream) =
        http_Error w ''Failed to read upstream response'' StatusBadGateway \<or>
      (\<exists>body. snd (serveCached env s w upstream) =
         Write (Header_Set (Header_Set w ''Content-Type'' ''application/json'')
                  ''X-Cache'' ''MISS'') body))"
proof (cases "client_Get env upstream")
  case GetErr
  with miss have "snd (serveCached env s w upstream) =
      http_Error w ''Upstream unavailable'' StatusBadGateway"
    by (simp add: serveCached_GetErr)
  with GetErr show ?thesis
    by (auto dest: http_Error_msg_inject)
next
  case (GetResp resp)
  show ?thesis
  proof (cases "StatusCode resp = StatusOK")
    case False
    with miss GetResp have "snd (serveCached env s w upstream) =
        http_Error w ''Upstream error'' StatusBadGateway"
      by (simp add: serveCached_not_OK)
    with GetResp False show ?thesis
      by (auto dest: http_Error_msg_inject)
  next
    case True
    show ?thesis
    proof (cases "Body resp")
      case (ReadErr part)
      with miss GetResp True have "snd (serveCached env s w upstream) =
          http_Error w ''Failed to read upstream response'' StatusBadGateway"
        by (simp add: serveCached_ReadErr)
      with GetResp True ReadErr show ?thesis
        by (auto dest: http_Error_msg_inject)
    next
      case (ReadOK body)
      with miss GetResp True have "snd (serveCached env s w upstream) =
          Write (Header_Set (Header_Set w ''Content-Type'' ''application/json'')
                   ''X-Cache'' ''MISS'') body"
        by (simp add: serveCached_ReadOK)
      with GetResp True ReadOK show ?thesis
        by (auto simp add: http_Error_not_json http_Error_not_json [THEN not_sym])
    qed
  qed
qed

text \<open>When the fetch fails, whatever the reason, the map is as it was.\<close>

lemma serveCached_failure_keeps_cache:
  assumes miss: "\<not> (\<exists>e. cache s upstream = Some e \<and> now_lookup env < until e)"
    and fail: "client_Get env upstream = GetErr \<or>
       (\<exists>resp. client_Get env upstream = GetResp resp \<and>
          (StatusCode resp \<noteq> StatusOK \<or> (\<exists>part. Body resp = ReadErr part)))"
  shows "cache (fst (serveCached env s w upstream)) = cache s \<and>
         (snd (serveCached env s w upstream) =
            http_Error w ''Upstream unavailable'' StatusBadGateway \<or>
          snd (serveCached env s w upstream) =
            http_Error w ''Upstream error'' StatusBadGateway \<or>
          snd (serveCached env s w upstream) =
            http_Error w ''Failed to read upstream response'' StatusBadGateway)"
proof (cases "client_Get env upstream")
  case GetErr
  with miss show ?thesis by (simp add: serveCached_GetErr)
next
  case (GetResp resp)
  show ?thesis
  proof (cases "StatusCode resp = StatusOK")
    case False
    with miss GetResp show ?thesis by (simp add: serveCached_not_OK)
  next
    case True
    with fail GetResp obtain part where "Body resp = ReadErr part" by auto
    with miss GetResp True show ?thesis by (simp add: serveCached_ReadErr)
  qed
qed

text \<open>
  On every path that goes to the upstream, the network call, the reading of the body and
  the write to the client happen while no lock is held.
\<close>

lemma miss_does_io_outside_the_lock:
  assumes "\<not> (\<exists>e. cache s upstream = Some e \<and> now_lookup env < until e)"
    and "events s = []"
  shows "\<not> io_while_locked 0 (events (fst (serveCached env s w upstream)))"
proof (cases "client_Get env upstream")
  case GetErr
  with assms show ?thesis by (simp add: serveCached_GetErr)
next
  case (GetResp resp)
  show ?thesis
  proof (cases "StatusCode resp = StatusOK")
    case False
    with assms GetResp show ?thesis by (simp add: serveCached_not_OK)
  next
    case True
    with assms GetResp show ?thesis
      by (cases "Body resp") (simp_all add: serveCached_ReadOK serveCached_ReadErr)
  qed
qed

subsection \<open>The identifiers that eventIDRegex matches\<close>

lemma digit_char_iff:
  "(48 \<le> (of_char c :: nat) \<and> (of_char c :: nat) \<le> 57) \<longleftrightarrow> c \<in> set ''0123456789''"
proof
  assume "48 \<le> (of_char c :: nat) \<and> (of_char c :: nat) \<le> 57"
  then have "(of_char c :: nat) \<in> of_char ` set ''0123456789''" by (simp; arith)
  then obtain d where "d \<in> set ''0123456789''" and "(of_char c :: nat) = of_char d" by blast
  then show "c \<in> set ''0123456789''" by (simp only: of_char_eq_iff)
next
  assume "c \<in> set ''0123456789''"
  then show "48 \<le> (of_char c :: nat) \<and> (of_char c :: nat) \<le> 57" by auto
qed

lemma ends_Plus_class_Cons:
  "ends (Plus (CharClass lo hi)) (b, c # cs) =
     (if lo \<le> of_char c \<and> of_char c \<le> hi
      then (False, cs) # ends (Plus (CharClass lo hi)) (False, cs) else [])"
  by simp

lemma digits_then_end:
  "concat (map (ends EndText) (ends (Plus (CharClass 48 57)) (b, t))) \<noteq> [] \<longleftrightarrow>
     t \<noteq> [] \<and> (\<forall>c\<in>set t. 48 \<le> (of_char c :: nat) \<and> (of_char c :: nat) \<le> 57)"
proof (induction t arbitrary: b)
  case Nil
  show ?case by simp
next
  case (Cons c cs)
  show ?case
  proof (cases "48 \<le> (of_char c :: nat) \<and> (of_char c :: nat) \<le> 57")
    case False
    then show ?thesis by auto
  next
    case True
    have "concat (map (ends EndText) (ends (Plus (CharClass 48 57)) (b, c # cs))) =
            ends EndText (False, cs) @
            concat (map (ends EndText) (ends (Plus (CharClass 48 57)) (False, cs)))"
      using True by (simp add: ends_Plus_class_Cons del: ends.simps)
    then show ?thesis using True Cons.IH [of False] by (cases cs) auto
  qed
qed

lemma search_anchored_later: "\<not> search (Concat BeginText r) False t"
  by (induction t) simp_all

lemma MatchString_eventIDRegex:
  "MatchString eventIDRegex t \<longleftrightarrow> t \<noteq> [] \<and> (\<forall>c\<in>set t. c \<in> set ''0123456789'')"
proof -
  have "MatchString eventIDRegex t \<longleftrightarrow> ends eventIDRegex (True, t) \<noteq> []"
    unfolding MatchString_def eventIDRegex_def
    by (cases t) (simp_all only: search.simps search_anchored_later simp_thms)
  also have "\<dots> \<longleftrightarrow> concat (map (ends EndText) (ends (Plus (CharClass 48 57)) (True, t))) \<noteq> []"
    by (simp add: eventIDRegex_def)
  also have "\<dots> \<longleftrightarrow> t \<noteq> [] \<and> (\<forall>c\<in>set t. 48 \<le> (of_char c :: nat) \<and> (of_char c :: nat) \<le> 57)"
    by (rule digits_then_end)
  also have "\<dots> \<longleftrightarrow> t \<noteq> [] \<and> (\<forall>c\<in>set t. c \<in> set ''0123456789'')"
    by (simp only: digit_char_iff)
  finally show ?thesis .
qed

subsection \<open>Claims about the read-through path\<close>

text \<open>
  C1. A request is served from the cache exactly when the map has an entry for the key
  whose \<open>until\<close> lies strictly after the clock reading of the lookup. Then the reply
  carries the cached bytes, is marked \<open>X-Cache: HIT\<close>, has status 200 on a new writer,
  and no call to the upstream is logged; the map is unchanged. In every other case (no
  entry, or \<open>until\<close> not after the clock reading) exactly one call to the upstream, for
  this URL, is logged.
\<close>

theorem serveCached_hit_exactly_when_fresh:
  "(\<forall>e. cache s upstream = Some e \<and> now_lookup env < until e \<longrightarrow>
      written (snd (serveCached env s w upstream)) = written w @ data e \<and>
      header (snd (serveCached env s w upstream)) ''X-Cache'' = Some [''HIT''] \<and>
      (status w = None \<longrightarrow> status (snd (serveCached env s w upstream)) = Some StatusOK) \<and>
      transport_calls (events (fst (serveCached env s w upstream))) =
        transport_calls (events s) \<and>
      cache (fst (serveCached env s w upstream)) = cache s) \<and>
   (\<not> (\<exists>e. cache s upstream = Some e \<and> now_lookup env < until e) \<longrightarrow>
      transport_calls (events (fst (serveCached env s w upstream))) =
        transport_calls (events s) @ [upstream])"
proof (intro conjI allI impI)
  fix e
  assume h: "cache s upstream = Some e \<and> now_lookup env < until e"
  note hit = serveCached_hit [of s upstream e env w]
  from h hit show "written (snd (serveCached env s w upstream)) = written w @ data e"
    by (simp add: Write_fields Header_Set_fields)
  from h hit show "header (snd (serveCached env s w upstream)) ''X-Cache'' = Some [''HIT'']"
    by (simp add: Write_fields Header_Set_fields)
  from h hit show "transport_calls (events (fst (serveCached env s w upstream))) =
      transport_calls (events s)"
    by (simp add: transport_calls_append)
  from h hit show "cache (fst (serveCached env s w upstream)) = cache s"
    by simp
  assume "status w = None"
  with h hit show "status (snd (serveCached env s w upstream)) = Some StatusOK"
    by (simp add: Write_fields Header_Set_fields)
next
  assume miss: "\<not> (\<exists>e. cache s upstream = Some e \<and> now_lookup env < until e)"
  show "transport_calls (events (fst (serveCached env s w upstream))) =
      transport_calls (events s) @ [upstream]"
  proof (cases "client_Get env upstream")
    case GetErr
    with miss show ?thesis
      by (simp add: serveCached_GetErr transport_calls_append)
  next
    case (GetResp resp)
    show ?thesis
    proof (cases "StatusCode resp = StatusOK")
      case False
      with miss GetResp show ?thesis
        by (simp add: serveCached_not_OK transport_calls_append)
    next
      case True
      with miss GetResp show ?thesis
        by (cases "Body resp")
          (simp_all add: serveCached_ReadOK serveCached_ReadErr transport_calls_append)
    qed
  qed
qed

text \<open>
  An entry that expires at instant 100 is served at instant 99 without a call to the
  upstream; at instant 100, and when the key is missing, the upstream is called.
\<close>

theorem serveCached_hit_exactly_when_fresh_witness:
  "cache cachedState eventsURL = Some \<lparr>data = ''{}'', until = 100\<rparr> \<and>
   written (snd (serveCached (world 99 GetErr 99) cachedState freshWriter eventsURL)) = ''{}'' \<and>
   header (snd (serveCached (world 99 GetErr 99) cachedState freshWriter eventsURL)) ''X-Cache''
     = Some [''HIT''] \<and>
   status (snd (serveCached (world 99 GetErr 99) cachedState freshWriter eventsURL)) = Some 200 \<and>
   transport_calls (events (fst (serveCached (world 99 GetErr 99) cachedState freshWriter
     eventsURL))) = [] \<and>
   transport_calls (events (fst (serveCached (world 100 GetErr 100) cachedState freshWriter
     eventsURL))) = [eventsURL] \<and>
   transport_calls (events (fst (serveCached (world 99 GetErr 99) initialState freshWriter
     eventsURL))) = [eventsURL]"
proof -
  have c: "cache cachedState eventsURL = Some \<lparr>data = ''{}'', until = 100\<rparr>"
    by (simp add: cachedState_def)
  have n: "cache initialState eventsURL = None"
    by (simp add: initialState_def)
  have e: "events cachedState = []" "events initialState = []"
    by (simp_all add: cachedState_def initialState_def)
  have w: "written freshWriter = []" "status freshWriter = None"
    by (simp_all add: freshWriter_def)
  have t: "now_lookup (world 99 GetErr 99) = 99" "now_lookup (world 100 GetErr 100) = 100"
    by (simp_all add: world_def)
  show ?thesis
    using serveCached_hit_exactly_when_fresh
            [of cachedState eventsURL "world 99 GetErr 99" freshWriter]
          serveCached_hit_exactly_when_fresh
            [of cachedState eventsURL "world 100 GetErr 100" freshWriter]
          serveCached_hit_exactly_when_fresh
            [of initialState eventsURL "world 99 GetErr 99" freshWriter]
    by (simp add: c n e w t StatusOK_def)
qed

text \<open>
  C2, as stated, fails: when the upstream answers with status 500 and a body that cannot be
  read, the body is never read and the reply is "Upstream error", not "Failed to read
  upstream response".
\<close>

theorem read_failure_iff_unreadable_counterexample:
  "cache initialState eventsURL = None \<and>
   client_Get (world 0 (answer 500 (ReadErr [])) 0) eventsURL = answer 500 (ReadErr []) \<and>
   answer 500 (ReadErr []) = GetResp \<lparr>StatusCode = 500, Body = ReadErr []\<rparr> \<and>
   snd (serveCached (world 0 (answer 500 (ReadErr [])) 0) initialState freshWriter eventsURL) \<noteq>
     http_Error freshWriter ''Failed to read upstream response'' StatusBadGateway \<and>
   snd (serveCached (world 0 (answer 500 (ReadErr [])) 0) initialState freshWriter eventsURL) =
     http_Error freshWriter ''Upstream error'' StatusBadGateway"
proof -
  have n: "\<not> (\<exists>e. cache initialState eventsURL = Some e \<and>
      now_lookup (world 0 (answer 500 (ReadErr [])) 0) < until e)"
    by (simp add: initialState_def)
  have g: "client_Get (world 0 (answer 500 (ReadErr [])) 0) eventsURL =
      GetResp \<lparr>StatusCode = 500, Body = ReadErr []\<rparr>"
    by (simp add: world_def always_def answer_def)
  have r: "snd (serveCached (world 0 (answer 500 (ReadErr [])) 0) initialState freshWriter eventsURL) =
     http_Error freshWriter ''Upstream error'' StatusBadGateway"
    using serveCached_not_OK [OF n g, of freshWriter] by (simp add: StatusOK_def)
  have d: "http_Error freshWriter ''Upstream error'' StatusBadGateway \<noteq>
     http_Error freshWriter ''Failed to read upstream response'' StatusBadGateway"
    using http_Error_msg_inject
      [of freshWriter "''Upstream error''" StatusBadGateway "''Failed to read upstream response''"
        StatusBadGateway]
    by auto
  show ?thesis
    using r d g by (simp add: initialState_def answer_def)
qed

text \<open>
  C2, amended. On a miss the reply is "Upstream unavailable" exactly when
  \<open>httpClient.Get\<close> returns an error; it is "Upstream error" exactly when a response
  arrives whose status is not 200; it is "Failed to read upstream response" exactly when
  a response with status 200 arrives and reading its body fails. Every reply on this path
  is one of these three or the successful reply marked \<open>X-Cache: MISS\<close>. Under a status
  other than 200 the body is discarded without being read: what the call does is the
  lookup, the network call, the write of the reply and the closing of the body, with no
  \<open>io.ReadAll\<close> and no store, so that the map is unchanged. The map is unchanged as well
  when the call fails and when the body cannot be read.
\<close>

theorem serveCached_error_kinds:
  assumes miss: "\<not> (\<exists>e. cache s upstream = Some e \<and> now_lookup env < until e)"
  shows
    "(snd (serveCached env s w upstream) = http_Error w ''Upstream unavailable'' StatusBadGateway
        \<longleftrightarrow> client_Get env upstream = GetErr) \<and>
     (snd (serveCached env s w upstream) = http_Error w ''Upstream error'' StatusBadGateway
        \<longleftrightarrow> (\<exists>resp. client_Get env upstream = GetResp resp \<and> StatusCode resp \<noteq> StatusOK)) \<and>
     (snd (serveCached env s w upstream) =
        http_Error w ''Failed to read upstream response'' StatusBadGateway
        \<longleftrightarrow> (\<exists>resp part. client_Get env upstream = GetResp resp \<and>
               StatusCode resp = StatusOK \<and> Body resp = ReadErr part)) \<and>
     (snd (serveCached env s w upstream) = http_Error w ''Upstream unavailable'' StatusBadGateway \<or>
      snd (serveCached env s w upstream) = http_Error w ''Upstream error'' StatusBadGateway \<or>
      snd (serveCached env s w upstream) =
        http_Error w ''Failed to read upstream response'' StatusBadGateway \<or>
      (\<exists>body. snd (serveCached env s w upstream) =
         Write (Header_Set (Header_Set w ''Content-Type'' ''application/json'')
                  ''X-Cache'' ''MISS'') body)) \<and>
     (client_Get env upstream = GetErr \<longrightarrow>
        cache (fst (serveCached env s w upstream)) = cache s \<and>
        events (fst (serveCached env s w upstream)) =
          events s @ [RLock, RUnlock, ClientGet upstream, ResponseWrite]) \<and>
     (\<forall>resp. client_Get env upstream = GetResp resp \<and> StatusCode resp \<noteq> StatusOK \<longrightarrow>
        cache (fst (serveCached env s w upstream)) = cache s \<and>
        events (fst (serveCached env s w upstream)) =
          events s @ [RLock, RUnlock, ClientGet upstream, ResponseWrite, BodyClose] \<and>
        BodyReadAll \<notin> set (drop (length (events s))
          (events (fst (serveCached env s w upstream))))) \<and>
     (\<forall>resp part. client_Get env upstream = GetResp resp \<and> StatusCode resp = StatusOK \<and>
          Body resp = ReadErr part \<longrightarrow>
        cache (fst (serveCached env s w upstream)) = cache s \<and>
        events (fst (serveCached env s w upstream)) =
          events s @
          [RLock, RUnlock, ClientGet upstream, BodyReadAll, ResponseWrite, BodyClose])"
proof -
  have unavailable: "cache (fst (serveCached env s w upstream)) = cache s \<and>
        events (fst (serveCached env s w upstream)) =
          events s @ [RLock, RUnlock, ClientGet upstream, ResponseWrite]"
    if "client_Get env upstream = GetErr"
    using serveCached_GetErr [OF miss that, of w] by simp
  have not_ok: "cache (fst (serveCached env s w upstream)) = cache s \<and>
        events (fst (serveCached env s w upstream)) =
          events s @ [RLock, RUnlock, ClientGet upstream, ResponseWrite, BodyClose] \<and>
        BodyReadAll \<notin> set (drop (length (events s))
          (events (fst (serveCached env s w upstream))))"
    if "client_Get env upstream = GetResp resp" and "StatusCode resp \<noteq> StatusOK" for resp
    using serveCached_not_OK [OF miss that, of w] by simp
  have unreadable: "cache (fst (serveCached env s w upstream)) = cache s \<and>
        events (fst (serveCached env s w upstream)) =
          events s @
          [RLock, RUnlock, ClientGet upstream, BodyReadAll, ResponseWrite, BodyClose]"
    if "client_Get env upstream = GetResp resp" and "StatusCode resp = StatusOK"
      and "Body resp = ReadErr part" for resp part
    using serveCached_ReadErr [OF miss that, of w] by simp
  from serveCached_error_replies [OF miss, of w] unavailable not_ok unreadable
  show ?thesis by blast
qed

text \<open>
  From an empty cache: a failed call, a status 500, an unreadable body under status 200
  give the three errors in this order, and a readable body under status 200 gives none
  of them. Under status 500 the body is closed unread and nothing is stored.
\<close>

theorem serveCached_error_kinds_witness:
  "cache initialState eventsURL = None \<and>
   snd (serveCached (world 0 GetErr 0) initialState freshWriter eventsURL) =
     http_Error freshWriter ''Upstream unavailable'' StatusBadGateway \<and>
   snd (serveCached (world 0 (answer 500 (ReadOK ''oops'')) 0) initialState freshWriter eventsURL) =
     http_Error freshWriter ''Upstream error'' StatusBadGateway \<and>
   events (fst (serveCached (world 0 (answer 500 (ReadOK ''oops'')) 0) initialState freshWriter
     eventsURL)) = [RLock, RUnlock, ClientGet eventsURL, ResponseWrite, BodyClose] \<and>
   cache (fst (serveCached (world 0 (answer 500 (ReadOK ''oops'')) 0) initialState freshWriter
     eventsURL)) = cache initialState \<and>
   snd (serveCached (world 0 (answer 200 (ReadErr ''{'')) 0) initialState freshWriter eventsURL) =
     http_Error freshWriter ''Failed to read upstream response'' StatusBadGateway \<and>
   events (fst (serveCached (world 0 (answer 200 (ReadErr ''{'')) 0) initialState freshWriter
     eventsURL)) =
     [RLock, RUnlock, ClientGet eventsURL, BodyReadAll, ResponseWrite, BodyClose] \<and>
   snd (serveCached (world 0 (answer 200 (ReadOK ''{}'')) 0) initialState freshWriter eventsURL) \<noteq>
     http_Error freshWriter ''Upstream unavailable'' StatusBadGateway \<and>
   snd (serveCached (world 0 (answer 200 (ReadOK ''{}'')) 0) initialState freshWriter eventsURL) \<noteq>
     http_Error freshWriter ''Upstream error'' StatusBadGateway \<and>
   snd (serveCached (world 0 (answer 200 (ReadOK ''{}'')) 0) initialState freshWriter eventsURL) \<noteq>
     http_Error freshWriter ''Failed to read upstream response'' StatusBadGateway"
proof -
  have n: "\<not> (\<exists>e. cache initialState eventsURL = Some e \<and> now_lookup (env :: env) < until e)"
    for env
    by (simp add: initialState_def)
  have g: "client_Get (world t r t') u = r" for t r t' u
    by (simp add: world_def always_def)
  have e: "events initialState = []"
    by (simp add: initialState_def)
  have c: "cache initialState eventsURL = None"
    by (simp add: initialState_def)
  show ?thesis
    using serveCached_error_kinds [OF n, of "world 0 GetErr 0" freshWriter]
          serveCached_error_kinds [OF n, of "world 0 (answer 500 (ReadOK ''oops'')) 0" freshWriter]
          serveCached_error_kinds [OF n, of "world 0 (answer 200 (ReadErr ''{'')) 0" freshWriter]
          serveCached_error_kinds [OF n, of "world 0 (answer 200 (ReadOK ''{}'')) 0" freshWriter]
    by (simp add: g e c answer_def StatusOK_def)
qed

text \<open>
  C3. On a miss where the upstream answers with status 200 and the body is read in full,
  the body is stored under the key with \<open>until\<close> equal to the clock reading of the store
  plus \<open>cacheTTL\<close>, which is five minutes in nanoseconds, and the reply carries that body,
  is marked \<open>X-Cache: MISS\<close> and has status 200 on a new writer.
\<close>

theorem serveCached_miss_stores_body:
  assumes "\<not> (\<exists>e. cache s upstream = Some e \<and> now_lookup env < until e)"
    and "client_Get env upstream = GetResp resp"
    and "StatusCode resp = StatusOK"
    and "Body resp = ReadOK body"
  shows "cache (fst (serveCached env s w upstream)) =
           (cache s)(upstream \<mapsto> \<lparr>data = body, until = now_store env + cacheTTL\<rparr>) \<and>
         cacheTTL = 5 * 60 * 1000000000 \<and>
         written (snd (serveCached env s w upstream)) = written w @ body \<and>
         header (snd (serveCached env s w upstream)) ''X-Cache'' = Some [''MISS''] \<and>
         (status w = None \<longrightarrow> status (snd (serveCached env s w upstream)) = Some StatusOK)"
  using serveCached_ReadOK [OF assms, of w]
  by (simp add: Write_fields Header_Set_fields cacheTTL_def Minute_def Second_def)

text \<open>
  From an empty cache, with the clock at 8 when the entry is stored, the entry expires at
  300000000008.
\<close>

theorem serveCached_miss_stores_body_witness:
  "cache (fst (serveCached (world 7 (answer 200 (ReadOK ''{}'')) 8) initialState freshWriter
      eventsURL)) eventsURL = Some \<lparr>data = ''{}'', until = 300000000008\<rparr> \<and>
   written (snd (serveCached (world 7 (answer 200 (ReadOK ''{}'')) 8) initialState freshWriter
      eventsURL)) = ''{}'' \<and>
   header (snd (serveCached (world 7 (answer 200 (ReadOK ''{}'')) 8) initialState freshWriter
      eventsURL)) ''X-Cache'' = Some [''MISS''] \<and>
   status (snd (serveCached (world 7 (answer 200 (ReadOK ''{}'')) 8) initialState freshWriter
      eventsURL)) = Some 200"
proof -
  have n: "\<not> (\<exists>e. cache initialState eventsURL = Some e \<and>
      now_lookup (world 7 (answer 200 (ReadOK ''{}'')) 8) < until e)"
    by (simp add: initialState_def)
  have g: "client_Get (world 7 (answer 200 (ReadOK ''{}'')) 8) eventsURL =
      GetResp \<lparr>StatusCode = 200, Body = ReadOK ''{}''\<rparr>"
    by (simp add: world_def always_def answer_def)
  have c: "StatusCode \<lparr>StatusCode = 200, Body = ReadOK ''{}''\<rparr> = StatusOK"
    by (simp add: StatusOK_def)
  have b: "Body \<lparr>StatusCode = 200, Body = ReadOK ''{}''\<rparr> = ReadOK ''{}''"
    by simp
  have t: "now_store (world 7 (answer 200 (ReadOK ''{}'')) 8) = 8"
    by (simp add: world_def)
  show ?thesis
    using serveCached_miss_stores_body [OF n g c b, of freshWriter]
    by (simp add: t freshWriter_def StatusOK_def)
qed

text \<open>
  C4. When a request fails (the call to the upstream fails, the status is not 200, or the
  body cannot be read), the map is exactly as before; in particular a key that was missing
  is still missing. A later request for the same key (its clock not before the failed
  one) whose fetch succeeds stores the new body under the key and replies with it, marked
  \<open>X-Cache: MISS\<close>.
\<close>

theorem serveCached_failure_isolation:
  assumes miss: "\<not> (\<exists>e. cache s upstream = Some e \<and> now_lookup env < until e)"
    and fail: "client_Get env upstream = GetErr \<or>
       (\<exists>resp. client_Get env upstream = GetResp resp \<and>
          (StatusCode resp \<noteq> StatusOK \<or> (\<exists>part. Body resp = ReadErr part)))"
  shows "cache (fst (serveCached env s w upstream)) = cache s \<and>
         (cache s upstream = None \<longrightarrow>
            index (cache (fst (serveCached env s w upstream))) upstream = (zeroEntry, False)) \<and>
         (\<forall>env' w' body.
            now_lookup env \<le> now_lookup env' \<and>
            client_Get env' upstream = GetResp \<lparr>StatusCode = StatusOK, Body = ReadOK body\<rparr> \<longrightarrow>
            cache (fst (serveCached env' (fst (serveCached env s w upstream)) w' upstream)) =
              (cache s)(upstream \<mapsto> \<lparr>data = body, until = now_store env' + cacheTTL\<rparr>) \<and>
            written (snd (serveCached env' (fst (serveCached env s w upstream)) w' upstream)) =
              written w' @ body \<and>
            header (snd (serveCached env' (fst (serveCached env s w upstream)) w' upstream))
              ''X-Cache'' = Some [''MISS''])"
proof -
  have same: "cache (fst (serveCached env s w upstream)) = cache s"
    using serveCached_failure_keeps_cache [OF miss fail] by simp
  have later: "cache (fst (serveCached env' (fst (serveCached env s w upstream)) w' upstream)) =
              (cache s)(upstream \<mapsto> \<lparr>data = body, until = now_store env' + cacheTTL\<rparr>) \<and>
            written (snd (serveCached env' (fst (serveCached env s w upstream)) w' upstream)) =
              written w' @ body \<and>
            header (snd (serveCached env' (fst (serveCached env s w upstream)) w' upstream))
              ''X-Cache'' = Some [''MISS'']"
    if le: "now_lookup env \<le> now_lookup env'"
      and ok: "client_Get env' upstream = GetResp \<lparr>StatusCode = StatusOK, Body = ReadOK body\<rparr>"
    for env' :: env and w' body
  proof -
    have miss': "\<not> (\<exists>e. cache (fst (serveCached env s w upstream)) upstream = Some e \<and>
        now_lookup env' < until e)"
      using miss le by (auto simp add: same)
    show ?thesis
      using serveCached_ReadOK [OF miss' ok, of body w']
      by (simp add: same Write_fields Header_Set_fields)
  qed
  show ?thesis
    using same later by (simp add: index_def)
qed

text \<open>
  From an empty cache: a status 500 leaves the key missing, and the next request, answered
  with status 200, stores its body.
\<close>

theorem serveCached_failure_isolation_witness:
  "cache initialState eventsURL = None \<and>
   cache (fst (serveCached (world 5 (answer 500 (ReadOK ''x'')) 5) initialState freshWriter
      eventsURL)) = cache initialState \<and>
   index (cache (fst (serveCached (world 5 (answer 500 (ReadOK ''x'')) 5) initialState freshWriter
      eventsURL))) eventsURL = (zeroEntry, False) \<and>
   cache (fst (serveCached (world 6 (answer 200 (ReadOK ''{}'')) 7)
      (fst (serveCached (world 5 (answer 500 (ReadOK ''x'')) 5) initialState freshWriter eventsURL))
      freshWriter eventsURL)) eventsURL = Some \<lparr>data = ''{}'', until = 7 + cacheTTL\<rparr> \<and>
   written (snd (serveCached (world 6 (answer 200 (ReadOK ''{}'')) 7)
      (fst (serveCached (world 5 (answer 500 (ReadOK ''x'')) 5) initialState freshWriter eventsURL))
      freshWriter eventsURL)) = ''{}''"
proof -
  have n: "\<not> (\<exists>e. cache initialState eventsURL = Some e \<and>
      now_lookup (world 5 (answer 500 (ReadOK ''x'')) 5) < until e)"
    by (simp add: initialState_def)
  have f: "client_Get (world 5 (answer 500 (ReadOK ''x'')) 5) eventsURL = GetErr \<or>
       (\<exists>resp. client_Get (world 5 (answer 500 (ReadOK ''x'')) 5) eventsURL = GetResp resp \<and>
          (StatusCode resp \<noteq> StatusOK \<or> (\<exists>part. Body resp = ReadErr part)))"
    by (simp add: world_def always_def answer_def StatusOK_def)
  have l: "now_lookup (world 5 (answer 500 (ReadOK ''x'')) 5) \<le>
        now_lookup (world 6 (answer 200 (ReadOK ''{}'')) 7) \<and>
      client_Get (world 6 (answer 200 (ReadOK ''{}'')) 7) eventsURL =
        GetResp \<lparr>StatusCode = StatusOK, Body = ReadOK ''{}''\<rparr>"
    by (simp add: world_def always_def answer_def StatusOK_def)
  have t: "now_store (world 6 (answer 200 (ReadOK ''{}'')) 7) = 7"
    by (simp add: world_def)
  have w: "written freshWriter = []"
    by (simp add: freshWriter_def)
  have c: "cache initialState eventsURL = None"
    by (simp add: initialState_def)
  from serveCached_failure_isolation [OF n f, of freshWriter]
  have "cache (fst (serveCached (world 5 (answer 500 (ReadOK ''x'')) 5) initialState freshWriter
          eventsURL)) = cache initialState"
    and "index (cache (fst (serveCached (world 5 (answer 500 (ReadOK ''x'')) 5) initialState
          freshWriter eventsURL))) eventsURL = (zeroEntry, False)"
    and "cache (fst (serveCached (world 6 (answer 200 (ReadOK ''{}'')) 7)
          (fst (serveCached (world 5 (answer 500 (ReadOK ''x'')) 5) initialState freshWriter
             eventsURL)) freshWriter eventsURL)) =
         (cache initialState)(eventsURL \<mapsto> \<lparr>data = ''{}'', until = 7 + cacheTTL\<rparr>)"
    and "written (snd (serveCached (world 6 (answer 200 (ReadOK ''{}'')) 7)
          (fst (serveCached (world 5 (answer 500 (ReadOK ''x'')) 5) initialState freshWriter
             eventsURL)) freshWriter eventsURL)) = ''{}''"
    using l c t w by auto
  with c show ?thesis by simp
qed

subsection \<open>Claims about the handler of single events\<close>

text \<open>
  C5. For a GET request whose path is the prefix followed by an identifier, the request is
  passed to \<open>serveCached\<close>, with the upstream URL built from the identifier, exactly when
  the identifier is one or more ASCII digits. Any other identifier is answered with
  "Invalid event id" and status 400, and, whatever the method, then nothing but the write
  of the reply is logged: no lock, no lookup, no call to the upstream, and the map is
  unchanged.
\<close>

theorem eventByIDHandler_validates_identifier:
  assumes path: "URL_Path r = ''/api/calendar/event/'' @ ident"
  shows
    "(Method r = MethodGet \<and> ident \<noteq> [] \<and> (\<forall>c\<in>set ident. c \<in> set ''0123456789'') \<longrightarrow>
        eventByIDHandler env s w r =
          Some (serveCached env s w (baseUpstream @ ''/event/'' @ ident))) \<and>
     (Method r = MethodGet \<and> \<not> (ident \<noteq> [] \<and> (\<forall>c\<in>set ident. c \<in> set ''0123456789'')) \<longrightarrow>
        eventByIDHandler env s w r =
          Some (s\<lparr>events := events s @ [ResponseWrite]\<rparr>,
                http_Error w ''Invalid event id'' StatusBadRequest) \<and>
        StatusBadRequest = 400 \<and>
        (status w = None \<longrightarrow>
           status (http_Error w ''Invalid event id'' StatusBadRequest) = Some 400)) \<and>
     (\<not> (ident \<noteq> [] \<and> (\<forall>c\<in>set ident. c \<in> set ''0123456789'')) \<longrightarrow>
        (\<exists>s' w'. eventByIDHandler env s w r = Some (s', w') \<and>
           cache s' = cache s \<and>
           events s' = events s @ [ResponseWrite] \<and>
           transport_calls (events s') = transport_calls (events s)))"
proof -
  have len: "\<not> length (URL_Path r) < length ''/api/calendar/event/''"
    by (simp add: path)
  have ident: "drop (length ''/api/calendar/event/'') (URL_Path r) = ident"
    by (simp add: path)
  have handler: "eventByIDHandler env s w r =
     (if Method r \<noteq> MethodGet then
        Some (reply s (http_Error w ''Method not allowed'' StatusMethodNotAllowed))
      else if \<not> MatchString eventIDRegex ident then
        Some (reply s (http_Error w ''Invalid event id'' StatusBadRequest))
      else Some (serveCached env s w (baseUpstream @ ''/event/'' @ ident)))"
    unfolding eventByIDHandler_def using len by (simp only: ident Let_def if_False)
  show ?thesis
    unfolding handler MatchString_eventIDRegex
    by (auto simp add: reply_def emit_def StatusBadRequest_def http_Error_fields
        transport_calls_append)
qed

text \<open>
  The identifiers 123 and 0 reach \<open>serveCached\<close>; 12a, -1, the empty identifier and "1 2"
  are answered with status 400.
\<close>

theorem eventByIDHandler_validates_identifier_witness:
  "eventByIDHandler (world 0 GetErr 0) initialState freshWriter
      \<lparr>Method = ''GET'', URL_Path = ''/api/calendar/event/123''\<rparr> =
     Some (serveCached (world 0 GetErr 0) initialState freshWriter
             (baseUpstream @ ''/event/123'')) \<and>
   eventByIDHandler (world 0 GetErr 0) initialState freshWriter
      \<lparr>Method = ''GET'', URL_Path = ''/api/calendar/event/0''\<rparr> =
     Some (serveCached (world 0 GetErr 0) initialState freshWriter
             (baseUpstream @ ''/event/0'')) \<and>
   eventByIDHandler (world 0 GetErr 0) initialState freshWriter
      \<lparr>Method = ''GET'', URL_Path = ''/api/calendar/event/12a''\<rparr> =
     Some (initialState\<lparr>events := [ResponseWrite]\<rparr>,
           http_Error freshWriter ''Invalid event id'' 400) \<and>
   eventByIDHandler (world 0 GetErr 0) initialState freshWriter
      \<lparr>Method = ''GET'', URL_Path = ''/api/calendar/event/-1''\<rparr> =
     Some (initialState\<lparr>events := [ResponseWrite]\<rparr>,
           http_Error freshWriter ''Invalid event id'' 400) \<and>
   eventByIDHandler (world 0 GetErr 0) initialState freshWriter
      \<lparr>Method = ''GET'', URL_Path = ''/api/calendar/event/''\<rparr> =
     Some (initialState\<lparr>events := [ResponseWrite]\<rparr>,
           http_Error freshWriter ''Invalid event id'' 400) \<and>
   eventByIDHandler (world 0 GetErr 0) initialState freshWriter
      \<lparr>Method = ''GET'', URL_Path = ''/api/calendar/event/1 2''\<rparr> =
     Some (initialState\<lparr>events := [ResponseWrite]\<rparr>,
           http_Error freshWriter ''Invalid event id'' 400)"
proof -
  have p: "URL_Path \<lparr>Method = ''GET'', URL_Path = ''/api/calendar/event/'' @ i\<rparr> =
      ''/api/calendar/event/'' @ i" for i
    by simp
  have e: "events initialState = []"
    by (simp add: initialState_def)
  from eventByIDHandler_validates_identifier
         [OF p, of "''123''" "world 0 GetErr 0" initialState freshWriter]
       eventByIDHandler_validates_identifier
         [OF p, of "''0''" "world 0 GetErr 0" initialState freshWriter]
       eventByIDHandler_validates_identifier
         [OF p, of "''12a''" "world 0 GetErr 0" initialState freshWriter]
       eventByIDHandler_validates_identifier
         [OF p, of "''-1''" "world 0 GetErr 0" initialState freshWriter]
       eventByIDHandler_validates_identifier
         [OF p, of "[]" "world 0 GetErr 0" initialState freshWriter]
       eventByIDHandler_validates_identifier
         [OF p, of "''1 2''" "world 0 GetErr 0" initialState freshWriter]
  show ?thesis
    by (simp add: MethodGet_def e)
qed

subsection \<open>Claims about replacement, expiry, locking and the status code\<close>

text \<open>
  C6. Storing \<open>a\<close> and then \<open>b\<close> under one key leaves the map as if only \<open>b\<close> had been
  stored: the lookup gives \<open>b\<close> with the expiry of the second store, and nothing of \<open>a\<close>
  remains. The same holds for two requests in a row that both fetch (the second after the
  first entry has expired): the entry is the second body with the second expiry.
\<close>

theorem cacheStore_replaces:
  "cache (cacheStore (cacheStore s key a t1) key b t2) =
     (cache s)(key \<mapsto> \<lparr>data = b, until = t2 + cacheTTL\<rparr>) \<and>
   cache (cacheStore (cacheStore s key a t1) key b t2) = cache (cacheStore s key b t2) \<and>
   index (cache (cacheStore (cacheStore s key a t1) key b t2)) key =
     (\<lparr>data = b, until = t2 + cacheTTL\<rparr>, True) \<and>
   (\<forall>env1 env2 w1 w2.
      \<not> (\<exists>e. cache s key = Some e \<and> now_lookup env1 < until e) \<and>
      client_Get env1 key = GetResp \<lparr>StatusCode = StatusOK, Body = ReadOK a\<rparr> \<and>
      \<not> now_lookup env2 < now_store env1 + cacheTTL \<and>
      client_Get env2 key = GetResp \<lparr>StatusCode = StatusOK, Body = ReadOK b\<rparr> \<longrightarrow>
      cache (fst (serveCached env2 (fst (serveCached env1 s w1 key)) w2 key)) =
        (cache s)(key \<mapsto> \<lparr>data = b, until = now_store env2 + cacheTTL\<rparr>))"
proof (intro conjI allI impI)
  show "cache (cacheStore (cacheStore s key a t1) key b t2) =
     (cache s)(key \<mapsto> \<lparr>data = b, until = t2 + cacheTTL\<rparr>)"
    by (simp add: cacheStore_def emit_def)
  then show "cache (cacheStore (cacheStore s key a t1) key b t2) = cache (cacheStore s key b t2)"
    by (simp add: cacheStore_def emit_def)
  show "index (cache (cacheStore (cacheStore s key a t1) key b t2)) key =
     (\<lparr>data = b, until = t2 + cacheTTL\<rparr>, True)"
    by (simp add: cacheStore_def emit_def index_def)
next
  fix env1 env2 :: env and w1 w2
  assume h: "\<not> (\<exists>e. cache s key = Some e \<and> now_lookup env1 < until e) \<and>
      client_Get env1 key = GetResp \<lparr>StatusCode = StatusOK, Body = ReadOK a\<rparr> \<and>
      \<not> now_lookup env2 < now_store env1 + cacheTTL \<and>
      client_Get env2 key = GetResp \<lparr>StatusCode = StatusOK, Body = ReadOK b\<rparr>"
  then have first: "cache (fst (serveCached env1 s w1 key)) =
      (cache s)(key \<mapsto> \<lparr>data = a, until = now_store env1 + cacheTTL\<rparr>)"
    using serveCached_ReadOK
      [of s key env1 "\<lparr>StatusCode = StatusOK, Body = ReadOK a\<rparr>" a w1] by simp
  with h have miss2: "\<not> (\<exists>e. cache (fst (serveCached env1 s w1 key)) key = Some e \<and>
      now_lookup env2 < until e)"
    by auto
  from h have "client_Get env2 key = GetResp \<lparr>StatusCode = StatusOK, Body = ReadOK b\<rparr>"
    by simp
  from serveCached_ReadOK [OF miss2 this, of b w2] first
  show "cache (fst (serveCached env2 (fst (serveCached env1 s w1 key)) w2 key)) =
        (cache s)(key \<mapsto> \<lparr>data = b, until = now_store env2 + cacheTTL\<rparr>)"
    by simp
qed

text \<open>
  Body A fetched at instant 2, then body B fetched after A has expired; and the two stores
  directly one after the other.
\<close>

theorem cacheStore_replaces_witness:
  "cache (fst (serveCached (world (9 + cacheTTL) (answer 200 (ReadOK ''B'')) (9 + cacheTTL))
      (fst (serveCached (world 1 (answer 200 (ReadOK ''A'')) 2) initialState freshWriter eventsURL))
      freshWriter eventsURL)) eventsURL =
     Some \<lparr>data = ''B'', until = 9 + cacheTTL + cacheTTL\<rparr> \<and>
   cache (cacheStore (cacheStore initialState eventsURL ''A'' 2) eventsURL ''B'' 3) eventsURL =
     Some \<lparr>data = ''B'', until = 3 + cacheTTL\<rparr>"
proof -
  have h: "\<not> (\<exists>e. cache initialState eventsURL = Some e \<and>
        now_lookup (world 1 (answer 200 (ReadOK ''A'')) 2) < until e) \<and>
      client_Get (world 1 (answer 200 (ReadOK ''A'')) 2) eventsURL =
        GetResp \<lparr>StatusCode = StatusOK, Body = ReadOK ''A''\<rparr> \<and>
      \<not> now_lookup (world (9 + cacheTTL) (answer 200 (ReadOK ''B'')) (9 + cacheTTL)) <
        now_store (world 1 (answer 200 (ReadOK ''A'')) 2) + cacheTTL \<and>
      client_Get (world (9 + cacheTTL) (answer 200 (ReadOK ''B'')) (9 + cacheTTL)) eventsURL =
        GetResp \<lparr>StatusCode = StatusOK, Body = ReadOK ''B''\<rparr>"
    by (simp add: initialState_def world_def always_def answer_def StatusOK_def)
  have t: "now_store (world (9 + cacheTTL) (answer 200 (ReadOK ''B'')) (9 + cacheTTL)) =
      9 + cacheTTL"
    by (simp add: world_def)
  from cacheStore_replaces [of initialState eventsURL "''A''" 2 "''B''" 3] h t
  show ?thesis by auto
qed

text \<open>
  C7. When the entry of the key has expired and the fetch fails, the reply is one of the
  three errors with status 502 on a new writer; the expired bytes are not served (the
  reply is the error text and is not marked with \<open>X-Cache\<close>), although the expired entry
  is still in the map afterwards.
\<close>

theorem serveCached_no_stale_fallback:
  assumes present: "cache s upstream = Some e"
    and expired: "until e \<le> now_lookup env"
    and fail: "client_Get env upstream = GetErr \<or>
       (\<exists>resp. client_Get env upstream = GetResp resp \<and>
          (StatusCode resp \<noteq> StatusOK \<or> (\<exists>part. Body resp = ReadErr part)))"
  shows "(snd (serveCached env s w upstream) =
            http_Error w ''Upstream unavailable'' StatusBadGateway \<or>
          snd (serveCached env s w upstream) =
            http_Error w ''Upstream error'' StatusBadGateway \<or>
          snd (serveCached env s w upstream) =
            http_Error w ''Failed to read upstream response'' StatusBadGateway) \<and>
         (status w = None \<longrightarrow> status (snd (serveCached env s w upstream)) = Some StatusBadGateway) \<and>
         header (snd (serveCached env s w upstream)) ''X-Cache'' = header w ''X-Cache'' \<and>
         (\<exists>msg. written (snd (serveCached env s w upstream)) = written w @ msg @ [CHR 0x0A] \<and>
            msg \<in> {''Upstream unavailable'', ''Upstream error'',
                    ''Failed to read upstream response''}) \<and>
         cache (fst (serveCached env s w upstream)) upstream = Some e"
proof -
  have miss: "\<not> (\<exists>e. cache s upstream = Some e \<and> now_lookup env < until e)"
    using present expired by auto
  note r = serveCached_failure_keeps_cache [OF miss fail, of w]
  from r have one: "snd (serveCached env s w upstream) =
            http_Error w ''Upstream unavailable'' StatusBadGateway \<or>
          snd (serveCached env s w upstream) =
            http_Error w ''Upstream error'' StatusBadGateway \<or>
          snd (serveCached env s w upstream) =
            http_Error w ''Failed to read upstream response'' StatusBadGateway"
    by simp
  from one have st: "status w = None \<longrightarrow>
      status (snd (serveCached env s w upstream)) = Some StatusBadGateway"
    by (auto simp add: http_Error_fields)
  from one have hd: "header (snd (serveCached env s w upstream)) ''X-Cache'' = header w ''X-Cache''"
    by (auto simp add: http_Error_fields)
  from one have wr: "\<exists>msg. written (snd (serveCached env s w upstream)) =
      written w @ msg @ [CHR 0x0A] \<and>
      msg \<in> {''Upstream unavailable'', ''Upstream error'', ''Failed to read upstream response''}"
    by (auto simp add: http_Error_fields)
  from r present have keep: "cache (fst (serveCached env s w upstream)) upstream = Some e"
    by simp
  from one st hd wr keep show ?thesis by blast
qed

text \<open>An entry that expired at instant 100, requested at instant 100 while the upstream is down.\<close>

theorem serveCached_no_stale_fallback_witness:
  "cache cachedState eventsURL = Some \<lparr>data = ''{}'', until = 100\<rparr> \<and>
   status (snd (serveCached (world 100 GetErr 100) cachedState freshWriter eventsURL)) = Some 502 \<and>
   header (snd (serveCached (world 100 GetErr 100) cachedState freshWriter eventsURL)) ''X-Cache''
     = None \<and>
   cache (fst (serveCached (world 100 GetErr 100) cachedState freshWriter eventsURL)) eventsURL =
     Some \<lparr>data = ''{}'', until = 100\<rparr>"
proof -
  have p: "cache cachedState eventsURL = Some \<lparr>data = ''{}'', until = 100\<rparr>"
    by (simp add: cachedState_def)
  have x: "until \<lparr>data = ''{}'', until = 100\<rparr> \<le> now_lookup (world 100 GetErr 100)"
    by (simp add: world_def)
  have f: "client_Get (world 100 GetErr 100) eventsURL = GetErr \<or>
       (\<exists>resp. client_Get (world 100 GetErr 100) eventsURL = GetResp resp \<and>
          (StatusCode resp \<noteq> StatusOK \<or> (\<exists>part. Body resp = ReadErr part)))"
    by (simp add: world_def always_def)
  have w: "status freshWriter = None" "header freshWriter ''X-Cache'' = None"
    by (simp_all add: freshWriter_def)
  from serveCached_no_stale_fallback [OF p x f, of freshWriter] p w
  show ?thesis
    by (simp add: StatusBadGateway_def)
qed

text \<open>
  C8 does not hold for a request served from the cache: the reply is written to the client
  between \<open>RLock\<close> and \<open>RUnlock\<close>, that is, while the read lock is held.
\<close>

theorem hit_writes_response_under_read_lock:
  "cache cachedState eventsURL = Some \<lparr>data = ''{}'', until = 100\<rparr> \<and>
   now_lookup (world 99 GetErr 99) = 99 \<and>
   events (fst (serveCached (world 99 GetErr 99) cachedState freshWriter eventsURL)) =
     [RLock, ResponseWrite, RUnlock] \<and>
   io_while_locked 0
     (events (fst (serveCached (world 99 GetErr 99) cachedState freshWriter eventsURL)))"
proof -
  have c: "cache cachedState eventsURL = Some \<lparr>data = ''{}'', until = 100\<rparr>"
    by (simp add: cachedState_def)
  have t: "now_lookup (world 99 GetErr 99) = 99"
    by (simp add: world_def)
  have f: "now_lookup (world 99 GetErr 99) < until \<lparr>data = ''{}'', until = 100\<rparr>"
    by (simp add: t)
  have e: "events cachedState = []"
    by (simp add: cachedState_def)
  from serveCached_hit [OF c f, of freshWriter] c t e show ?thesis
    by simp
qed

text \<open>
  C9. Any number of requests for a key that do not store (each is served from the cache,
  or its fetch fails) leave the map unchanged, so that every lookup of every key gives
  the same entry and the same \<open>ok\<close> as before.
\<close>

theorem reads_do_not_change_the_cache:
  assumes "\<forall>x \<in> set reqs.
      (\<exists>e. cache s upstream = Some e \<and> now_lookup (fst x) < until e) \<or>
      client_Get (fst x) upstream = GetErr \<or>
      (\<exists>resp. client_Get (fst x) upstream = GetResp resp \<and>
         (StatusCode resp \<noteq> StatusOK \<or> (\<exists>part. Body resp = ReadErr part)))"
  shows "cache (serveRepeatedly reqs upstream s) = cache s \<and>
         (\<forall>key. index (cache (serveRepeatedly reqs upstream s)) key = index (cache s) key)"
proof -
  have "cache (serveRepeatedly reqs upstream s') = cache s"
    if "cache s' = cache s" for s'
    using assms that
  proof (induction reqs arbitrary: s')
    case Nil
    then show ?case by simp
  next
    case (Cons x xs)
    have step: "cache (fst (serveCached (fst x) s' (snd x) upstream)) = cache s"
    proof (cases "\<exists>e. cache s' upstream = Some e \<and> now_lookup (fst x) < until e")
      case True
      then obtain e where "cache s' upstream = Some e" and "now_lookup (fst x) < until e"
        by blast
      then show ?thesis
        using Cons.prems(2) by (simp add: serveCached_hit)
    next
      case False
      moreover from False Cons.prems have "client_Get (fst x) upstream = GetErr \<or>
        (\<exists>resp. client_Get (fst x) upstream = GetResp resp \<and>
           (StatusCode resp \<noteq> StatusOK \<or> (\<exists>part. Body resp = ReadErr part)))"
        by auto
      ultimately show ?thesis
        using serveCached_failure_keeps_cache [of s' upstream "fst x" "snd x"] Cons.prems(2)
        by simp
    qed
    from Cons.prems(1) have "\<forall>x \<in> set xs.
      (\<exists>e. cache s upstream = Some e \<and> now_lookup (fst x) < until e) \<or>
      client_Get (fst x) upstream = GetErr \<or>
      (\<exists>resp. client_Get (fst x) upstream = GetResp resp \<and>
         (StatusCode resp \<noteq> StatusOK \<or> (\<exists>part. Body resp = ReadErr part)))"
      by simp
    from Cons.IH [OF this step] show ?case by simp
  qed
  then have "cache (serveRepeatedly reqs upstream s) = cache s" by simp
  then show ?thesis by simp
qed

text \<open>
  Two requests served from the cache and one whose entry has expired while the upstream
  is down: the entry is the same afterwards.
\<close>

theorem reads_do_not_change_the_cache_witness:
  "cache (serveRepeatedly
      [(world 10 GetErr 10, freshWriter), (world 99 GetErr 99, freshWriter),
       (world 100 GetErr 100, freshWriter)] eventsURL cachedState) = cache cachedState \<and>
   index (cache (serveRepeatedly
      [(world 10 GetErr 10, freshWriter), (world 99 GetErr 99, freshWriter),
       (world 100 GetErr 100, freshWriter)] eventsURL cachedState)) eventsURL =
     (\<lparr>data = ''{}'', until = 100\<rparr>, True)"
proof -
  have h: "\<forall>x \<in> set [(world 10 GetErr 10, freshWriter), (world 99 GetErr 99, freshWriter),
       (world 100 GetErr 100, freshWriter)].
      (\<exists>e. cache cachedState eventsURL = Some e \<and> now_lookup (fst x) < until e) \<or>
      client_Get (fst x) eventsURL = GetErr \<or>
      (\<exists>resp. client_Get (fst x) eventsURL = GetResp resp \<and>
         (StatusCode resp \<noteq> StatusOK \<or> (\<exists>part. Body resp = ReadErr part)))"
    by (simp add: world_def always_def)
  have i: "index (cache cachedState) eventsURL = (\<lparr>data = ''{}'', until = 100\<rparr>, True)"
    by (simp add: cachedState_def index_def)
  from reads_do_not_change_the_cache [OF h] i show ?thesis by simp
qed

text \<open>
  C10. On a miss where a response arrives, the reply is "Upstream error" exactly when the
  status code differs from 200; then the map is unchanged and the status of the reply is
  502. This includes the other 2xx codes and the 3xx codes.
\<close>

theorem serveCached_only_200_is_success:
  assumes miss: "\<not> (\<exists>e. cache s upstream = Some e \<and> now_lookup env < until e)"
    and got: "client_Get env upstream = GetResp resp"
  shows "(snd (serveCached env s w upstream) = http_Error w ''Upstream error'' StatusBadGateway
            \<longleftrightarrow> StatusCode resp \<noteq> 200) \<and>
         (StatusCode resp \<noteq> 200 \<longrightarrow>
            cache (fst (serveCached env s w upstream)) = cache s \<and>
            (status w = None \<longrightarrow>
               status (snd (serveCached env s w upstream)) = Some StatusBadGateway))"
proof (cases "StatusCode resp = StatusOK")
  case False
  with miss got show ?thesis
    by (simp add: serveCached_not_OK StatusOK_def http_Error_fields)
next
  case True
  show ?thesis
  proof (cases "Body resp")
    case (ReadErr part)
    with miss got True have "snd (serveCached env s w upstream) =
        http_Error w ''Failed to read upstream response'' StatusBadGateway"
      by (simp add: serveCached_ReadErr)
    with True show ?thesis
      by (auto simp add: StatusOK_def dest: http_Error_msg_inject)
  next
    case (ReadOK body)
    with miss got True have "snd (serveCached env s w upstream) =
        Write (Header_Set (Header_Set w ''Content-Type'' ''application/json'')
                 ''X-Cache'' ''MISS'') body"
      by (simp add: serveCached_ReadOK)
    with True show ?thesis
      by (auto simp add: StatusOK_def http_Error_not_json [THEN not_sym])
  qed
qed

text \<open>Status 204 and status 301 are errors and store nothing; status 200 is no "Upstream error".\<close>

theorem serveCached_only_200_is_success_witness:
  "snd (serveCached (world 0 (answer 204 (ReadOK [])) 0) initialState freshWriter eventsURL) =
     http_Error freshWriter ''Upstream error'' StatusBadGateway \<and>
   cache (fst (serveCached (world 0 (answer 204 (ReadOK [])) 0) initialState freshWriter eventsURL))
     = cache initialState \<and>
   snd (serveCached (world 0 (answer 301 (ReadOK ''moved'')) 0) initialState freshWriter eventsURL) =
     http_Error freshWriter ''Upstream error'' StatusBadGateway \<and>
   cache (fst (serveCached (world 0 (answer 301 (ReadOK ''moved'')) 0) initialState freshWriter
     eventsURL)) = cache initialState \<and>
   snd (serveCached (world 0 (answer 200 (ReadOK ''{}'')) 0) initialState freshWriter eventsURL) \<noteq>
     http_Error freshWriter ''Upstream error'' StatusBadGateway"
proof -
  have n: "\<not> (\<exists>e. cache initialState eventsURL = Some e \<and> now_lookup (env :: env) < until e)"
    for env
    by (simp add: initialState_def)
  have g: "client_Get (world 0 (answer c b) 0) eventsURL = GetResp \<lparr>StatusCode = c, Body = b\<rparr>"
    for c b
    by (simp add: world_def always_def answer_def)
  from serveCached_only_200_is_success [OF n g, of 204 "ReadOK []" freshWriter]
       serveCached_only_200_is_success [OF n g, of 301 "ReadOK ''moved''" freshWriter]
       serveCached_only_200_is_success [OF n g, of 200 "ReadOK ''{}''" freshWriter]
  show ?thesis by simp
qed

end
